theory Spec2Isabelle
  imports Main "HOL-Library.Word"
begin

unbundle bit_operations_syntax

section \<open>Strings\<close>

text \<open>
  JavaScript strings are modelled as \<^typ>\<open>string\<close>. \<open>split sep s\<close> is
  \<^verbatim>\<open>s.split(sep)\<close> for a one-character separator: the empty string splits into one
  empty part, and two adjacent separators enclose an empty part. \<open>join sep xs\<close> is
  \<^verbatim>\<open>xs.join(sep)\<close> on an array whose elements are already strings.
\<close>

fun split :: "char \<Rightarrow> string \<Rightarrow> string list" where
  "split sep [] = [[]]"
| "split sep (c # cs) =
     (if c = sep then [] # split sep cs
      else (case split sep cs of [] \<Rightarrow> [[c]] | p # ps \<Rightarrow> (c # p) # ps))"

fun join :: "string \<Rightarrow> string list \<Rightarrow> string" where
  "join sep [] = []"
| "join sep [x] = x"
| "join sep (x # y # ys) = x @ sep @ join sep (y # ys)"

section \<open>Numbers: the coercions behind \<^verbatim>\<open>++\<close> and \<^verbatim>\<open>-=\<close>\<close>

text \<open>
  \<^verbatim>\<open>versionParts[i]++\<close> and \<^verbatim>\<open>versionParts[i] -= diff\<close> act on a string
  element: the string is converted to a Number, the arithmetic is done on Numbers, and
  \<^verbatim>\<open>join\<close> converts the Number back to a string. A Number is an IEEE double. The
  development models this exactly on the integers of magnitude at most \<open>2 ^ 53\<close>, where
  every integer is a double, sums that stay in the range are exact and the printed form is
  the plain decimal numeral. \<open>ToNumber\<close> reads the empty string (the Number 0) and an
  optionally signed decimal integer literal, with or without leading zeros. Every other
  case (hexadecimal, exponent and white-space forms, \<^verbatim>\<open>NaN\<close>, magnitudes beyond
  \<open>2 ^ 53\<close>) is not computed here: there the result is whatever the function
  \<open>inexact\<close> returns, a parameter of every definition that does arithmetic on version
  segments, and the theorems hold for every such function.
\<close>

definition digitChar :: "nat \<Rightarrow> char" where
  "digitChar d = ''0123456789'' ! d"

fun indexOf :: "'a list \<Rightarrow> 'a \<Rightarrow> nat option" where
  "indexOf [] c = None"
| "indexOf (x # xs) c = (if x = c then Some 0 else map_option Suc (indexOf xs c))"

definition digitVal :: "char \<Rightarrow> nat option" where
  "digitVal c = indexOf ''0123456789'' c"

fun decimal :: "nat \<Rightarrow> string" where
  "decimal n = (if n < 10 then [digitChar n] else decimal (n div 10) @ [digitChar (n mod 10)])"

declare decimal.simps [simp del]

fun digitsValue :: "nat \<Rightarrow> string \<Rightarrow> nat option" where
  "digitsValue acc [] = Some acc"
| "digitsValue acc (c # cs) =
     (case digitVal c of None \<Rightarrow> None | Some d \<Rightarrow> digitsValue (10 * acc + d) cs)"

definition exactInt :: "int \<Rightarrow> bool" where
  "exactInt n \<longleftrightarrow> - (2 ^ 53) \<le> n \<and> n \<le> 2 ^ 53"

definition decimalDigits :: "string \<Rightarrow> nat option" where
  "decimalDigits s = (if s = [] then None else digitsValue 0 s)"

definition ToNumber :: "string \<Rightarrow> int option" where
  "ToNumber s =
     (case (case s of
              [] \<Rightarrow> Some 0
            | c # cs \<Rightarrow>
                if c = CHR ''-'' then map_option (\<lambda>n. - int n) (decimalDigits cs)
                else if c = CHR ''+'' then map_option int (decimalDigits cs)
                else map_option int (decimalDigits s)) of
        None \<Rightarrow> None
      | Some n \<Rightarrow> if exactInt n then Some n else None)"

definition ToString :: "int \<Rightarrow> string" where
  "ToString n = (if n < 0 then CHR ''-'' # decimal (nat (- n)) else decimal (nat n))"

text \<open>
  \<open>addNumber inexact seg k\<close> is the string that stands in the array after the segment
  \<open>seg\<close> has had the integer \<open>k\<close> added to it and has been printed again:
  \<^verbatim>\<open>seg++\<close> is \<open>k = 1\<close>, \<^verbatim>\<open>seg -= diff\<close> is \<open>k = - diff\<close>.
\<close>

definition addNumber :: "(string \<Rightarrow> int \<Rightarrow> string) \<Rightarrow> string \<Rightarrow> int \<Rightarrow> string" where
  "addNumber inexact seg k =
     (case ToNumber seg of
        None \<Rightarrow> inexact seg k
      | Some n \<Rightarrow> if exactInt k \<and> exactInt (n + k) then ToString (n + k) else inexact seg k)"

section \<open>Versions\<close>

definition FirstVersion :: string where
  "FirstVersion = ''1.0.0''"

definition incrementVersion :: "(string \<Rightarrow> int \<Rightarrow> string) \<Rightarrow> string \<Rightarrow> string" where
  "incrementVersion inexact version =
     (let versionParts = split CHR ''.'' version;
          i = length versionParts - 1
      in join ''.'' (versionParts[i := addNumber inexact (versionParts ! i) 1]))"

text \<open>
  The second argument of \<open>getPreviousVersion\<close> is optional in the source
  (\<^verbatim>\<open>diff = 1\<close>): \<open>None\<close> is the call that leaves it out.
\<close>

definition getPreviousVersion ::
  "(string \<Rightarrow> int \<Rightarrow> string) \<Rightarrow> string \<Rightarrow> int option \<Rightarrow> string" where
  "getPreviousVersion inexact version diff =
     (if version = FirstVersion then FirstVersion
      else
        let d = (case diff of None \<Rightarrow> 1 | Some d \<Rightarrow> d);
            versionParts = split CHR ''.'' version;
            i = length versionParts - 1
        in join ''.'' (versionParts[i := addNumber inexact (versionParts ! i) (- d)]))"

text \<open>
  The data model's version: three dot-separated, non-empty runs of decimal digits. The
  source never checks it; it is the domain the properties speak about.
\<close>

definition isDigits :: "string \<Rightarrow> bool" where
  "isDigits s \<longleftrightarrow> s \<noteq> [] \<and> list_all (\<lambda>c. digitVal c \<noteq> None) s"

definition numericVersion :: "string \<Rightarrow> bool" where
  "numericVersion v =
     (case split CHR ''.'' v of [a, b, c] \<Rightarrow> isDigits a \<and> isDigits b \<and> isDigits c | _ \<Rightarrow> False)"

section \<open>The version ledger\<close>

text \<open>
  An error value: a \<^verbatim>\<open>TypeError\<close> raised by the engine (reading a property of
  \<^verbatim>\<open>undefined\<close>), or an error object with its \<^verbatim>\<open>name\<close>, its
  \<^verbatim>\<open>code\<close> (absent on a plain \<^verbatim>\<open>new Error(message)\<close>) and its message.
\<close>

datatype error = TypeError | Exception (name: string) (code: "string option") (message: string)

text \<open>
  A ledger item carries the attributes \<open>getNextVersion\<close> reads. An attribute is absent
  (\<open>None\<close>) or has a value; the value is a string attribute (\<open>S s\<close>) or of another
  kind, on which \<^verbatim>\<open>.S\<close> is \<^verbatim>\<open>undefined\<close>. The table has the single hash
  key \<^verbatim>\<open>ID\<close>, so the query for an identity returns no item or one.
\<close>

datatype attributeValue = S string | NotS

definition attrS :: "attributeValue \<Rightarrow> string option" where
  "attrS a = (case a of S s \<Rightarrow> Some s | NotS \<Rightarrow> None)"

record item =
  Version :: "attributeValue option"
  ContentHash :: "attributeValue option"

type_synonym table = "string \<Rightarrow> item option"

definition query :: "table \<Rightarrow> string \<Rightarrow> item list" where
  "query tbl i = (case tbl i of None \<Rightarrow> [] | Some it \<Rightarrow> [it])"

text \<open>
  \<open>nextVersionOf\<close> is the callback that \<open>getNextVersion\<close> runs on the items of the
  query's answer; \<open>contentHash\<close> is \<open>None\<close> when the caller leaves the argument out.
  The result \<open>Inr None\<close> is the source's \<^verbatim>\<open>undefined\<close>: no next version. The
  endpoint and region only select the client and are left out; a query that the service
  rejects is not modelled.
\<close>

definition nextVersionOf ::
  "(string \<Rightarrow> int \<Rightarrow> string) \<Rightarrow> item list \<Rightarrow> string option \<Rightarrow> error + string option" where
  "nextVersionOf inexact Items contentHash =
     (if length Items = 1 then
        (case Version (Items ! 0) of
           None \<Rightarrow> Inl TypeError
         | Some v \<Rightarrow>
             if attrS v \<noteq> Some '''' then
               (if (case ContentHash (Items ! 0) of
                      None \<Rightarrow> False
                    | Some h \<Rightarrow> attrS h \<noteq> None \<and> attrS h = contentHash)
                then Inr None
                else (case attrS v of
                        None \<Rightarrow> Inl TypeError
                      | Some s \<Rightarrow> Inr (Some (incrementVersion inexact s))))
             else Inr (Some ''1.0.0''))
      else Inr (Some ''1.0.0''))"

definition getNextVersion ::
  "(string \<Rightarrow> int \<Rightarrow> string) \<Rightarrow> table \<Rightarrow> string \<Rightarrow> string option \<Rightarrow> error + string option" where
  "getNextVersion inexact tbl i contentHash = nextVersionOf inexact (query tbl i) contentHash"

section \<open>Component identity\<close>

text \<open>
  \<open>getIDFromBase64PublicKey\<close> hashes the decoded key and renders the first 32
  characters of the hexadecimal digest in the letters a to p. The two library functions
  are parameters: \<open>fromBase64\<close> is \<^verbatim>\<open>Buffer.from(key, 'base64')\<close> and
  \<open>sha256\<close> is the SHA-256 hash, whose digest is 256 bits by its type. \<open>hexDigest\<close>
  is \<^verbatim>\<open>digest('hex')\<close>: the 64 nibbles of the digest, most significant first, in lower-case
  hexadecimal. \<open>replaceHex\<close> is the callback of \<^verbatim>\<open>replace(/[0-9a-f]/g, ...)\<close> applied
  to one character: a character the pattern does not match stays.
\<close>

definition hexDigits :: string where
  "hexDigits = ''0123456789abcdef''"

definition hexDigest :: "256 word \<Rightarrow> string" where
  "hexDigest w = map (\<lambda>i. hexDigits ! unat (drop_bit (4 * (63 - i)) w AND 15)) [0..<64]"

definition replaceHex :: "char \<Rightarrow> char" where
  "replaceHex c = (case indexOf hexDigits c of None \<Rightarrow> c | Some i \<Rightarrow> ''abcdefghijklmnop'' ! i)"

definition getIDFromBase64PublicKey ::
  "(8 word list \<Rightarrow> 256 word) \<Rightarrow> (string \<Rightarrow> 8 word list) \<Rightarrow> string \<Rightarrow> string" where
  "getIDFromBase64PublicKey sha256 fromBase64 key =
     (let data = fromBase64 key;
          digest = hexDigest (sha256 data);
          ident = take 32 digest
      in map replaceHex ident)"

section \<open>Fetching a text with retries\<close>















section \<open>Paths\<close>

text \<open>
  \<open>pathJoin\<close> is \<^verbatim>\<open>path.join\<close> of a directory and an entry name, for operands that
  need no normalisation (no empty, \<^verbatim>\<open>.\<close> or \<^verbatim>\<open>..\<close> segments). \<open>parseBase\<close>,
  \<open>parseExt\<close> and \<open>parseName\<close> are the fields \<^verbatim>\<open>base\<close>, \<^verbatim>\<open>ext\<close> and
  \<^verbatim>\<open>name\<close> of \<^verbatim>\<open>path.parse\<close> on a POSIX path: the base is the last segment, trailing
  slashes dropped; the extension starts at the last dot of the base, unless the base has
  no dot, has its last dot in front, or is \<^verbatim>\<open>..\<close>; the name is the base without the
  extension.
\<close>

definition pathJoin :: "string \<Rightarrow> string \<Rightarrow> string" where
  "pathJoin dir entry = dir @ ''/'' @ entry"

definition parseBase :: "string \<Rightarrow> string" where
  "parseBase p = last (split CHR ''/'' (rev (dropWhile (\<lambda>c. c = CHR ''/'') (rev p))))"

definition lastDot :: "string \<Rightarrow> nat option" where
  "lastDot b =
     (let upto = dropWhile (\<lambda>c. c \<noteq> CHR ''.'') (rev b)
      in if upto = [] then None else Some (length upto - 1))"

definition extStart :: "string \<Rightarrow> nat option" where
  "extStart b =
     (case lastDot b of
        None \<Rightarrow> None
      | Some i \<Rightarrow> if i = 0 \<or> b = ''..'' then None else Some i)"

definition parseExt :: "string \<Rightarrow> string" where
  "parseExt p = (case extStart (parseBase p) of None \<Rightarrow> [] | Some i \<Rightarrow> drop i (parseBase p))"

definition parseName :: "string \<Rightarrow> string" where
  "parseName p =
     (case extStart (parseBase p) of None \<Rightarrow> parseBase p | Some i \<Rightarrow> take i (parseBase p))"

section \<open>Generating patches\<close>

text \<open>
  The external tool is a parameter: \<open>spawnSync args\<close> is the \<^verbatim>\<open>error\<close> field of the
  result of running \<^verbatim>\<open>puffin\<close> on the arguments, \<open>None\<close> when it is not set, otherwise
  the error's message. \<open>resolve\<close> is \<^verbatim>\<open>path.resolve\<close>, which depends on the working
  directory. The trace records the console lines and the processes started.
\<close>

datatype patchEvent = ConsoleLog string | ConsoleError string | SpawnSync string "string list"

definition puffArgs :: "(string \<Rightarrow> string) \<Rightarrow> string \<Rightarrow> string \<Rightarrow> string \<Rightarrow> string list" where
  "puffArgs resolve sourceFile destinationFile outputFile =
     [''-puffdiff'', resolve sourceFile, resolve destinationFile, resolve outputFile]"

definition generatePuffDiff ::
  "(string \<Rightarrow> string) \<Rightarrow> (string list \<Rightarrow> string option) \<Rightarrow> string \<Rightarrow> string \<Rightarrow> string
     \<Rightarrow> (error + unit) \<times> patchEvent list" where
  "generatePuffDiff resolve spawnSync sourceFile destinationFile outputFile =
     (if sourceFile = [] \<or> destinationFile = [] \<or> outputFile = []
      then (Inl (Exception ''Error'' None
                   ''Missing parameters: source_file, destination_file, or output_file''), [])
      else
        let args = puffArgs resolve sourceFile destinationFile outputFile
        in (Inr (),
            SpawnSync ''puffin'' args
            # (case spawnSync args of
                 None \<Rightarrow> []
               | Some m \<Rightarrow> [ConsoleError (''Failed to execute puffin: '' @ m)])))"

text \<open>
  \<open>forEachPrevious\<close> is the \<^verbatim>\<open>forEach\<close> over the entries of the directory of previous
  versions: an exception thrown by \<open>generatePuffDiff\<close> leaves the loop.
\<close>

fun forEachPrevious ::
  "(string \<Rightarrow> string) \<Rightarrow> (string list \<Rightarrow> string option) \<Rightarrow> string \<Rightarrow> string \<Rightarrow> string
     \<Rightarrow> string list \<Rightarrow> (error + unit) \<times> patchEvent list" where
  "forEachPrevious resolve spawnSync crxFile downloadDir outputDir [] = (Inr (), [])"
| "forEachPrevious resolve spawnSync crxFile downloadDir outputDir (file # files) =
     (let filePath = pathJoin downloadDir file
      in if parseExt filePath = ''.crx'' then
           let outputFile = outputDir @ ''/'' @ parseName filePath @ ''.puff''
           in (case generatePuffDiff resolve spawnSync filePath crxFile outputFile of
                 (Inl e, tr) \<Rightarrow> (Inl e, ConsoleLog (''Generating patch: '' @ outputFile) # tr)
               | (Inr u, tr) \<Rightarrow>
                   (case forEachPrevious resolve spawnSync crxFile downloadDir outputDir files of
                      (r, tr') \<Rightarrow>
                        (r, ConsoleLog (''Generating patch: '' @ outputFile) # tr @ tr')))
         else forEachPrevious resolve spawnSync crxFile downloadDir outputDir files)"

text \<open>
  \<open>generatePuffPatches\<close> is the function from the point where the archive has been
  unpacked: \<open>prepared\<close> is the outcome of unpacking, reading the manifest, computing the
  identity and the hash of the file and recreating the output directory (an exception, or
  the identity and the hash); \<open>readdirSync\<close> lists a directory or throws. The patch jobs
  awaited at the end are the (undefined) results of \<open>generatePuffDiff\<close>, so that wait
  always succeeds and its error handler never runs.
\<close>

definition generatePuffPatches ::
  "(string \<Rightarrow> string) \<Rightarrow> (string list \<Rightarrow> string option) \<Rightarrow> (string \<Rightarrow> error + string list)
     \<Rightarrow> error + string \<times> string \<Rightarrow> string \<Rightarrow> (error + unit) \<times> patchEvent list" where
  "generatePuffPatches resolve spawnSync readdirSync prepared crxFile =
     (case prepared of
        Inl e \<Rightarrow> (Inl e, [])
      | Inr (ident, hash) \<Rightarrow>
          let downloadDir = ''build/previous/'' @ ident;
              outputDir = ''build/patches/'' @ ident @ ''/'' @ hash
          in (case readdirSync downloadDir of
                Inl e \<Rightarrow> (Inl e, [])
              | Inr files \<Rightarrow>
                  (case forEachPrevious resolve spawnSync crxFile downloadDir outputDir files of
                     (Inl e, tr) \<Rightarrow> (Inl e, tr)
                   | (Inr u, tr) \<Rightarrow> (Inr (), tr @ [ConsoleLog ''All patches generated.'']))))"

text \<open>
  The events of one directory entry when nothing throws: none for an entry that is not a
  \<^verbatim>\<open>.crx\<close> file; otherwise the announcement, the start of the tool and, when the tool
  reports an error, the line that logs it.
\<close>

definition entryEvents ::
  "(string \<Rightarrow> string) \<Rightarrow> (string list \<Rightarrow> string option) \<Rightarrow> string \<Rightarrow> string \<Rightarrow> string
     \<Rightarrow> string \<Rightarrow> patchEvent list" where
  "entryEvents resolve spawnSync crxFile downloadDir outputDir file =
     (let filePath = pathJoin downloadDir file;
          outputFile = outputDir @ ''/'' @ parseName filePath @ ''.puff'';
          args = puffArgs resolve filePath crxFile outputFile
      in if parseExt filePath = ''.crx''
         then [ConsoleLog (''Generating patch: '' @ outputFile), SpawnSync ''puffin'' args]
              @ (case spawnSync args of
                   None \<Rightarrow> []
                 | Some m \<Rightarrow> [ConsoleError (''Failed to execute puffin: '' @ m)])
         else [])"

section \<open>Publishing to the object store\<close>

text \<open>
  The commands sent to the object store, with the parameters the source gives them (the
  two access grants, read from the environment, are left out): the upload of an object
  with its body and content type, the replacement of an object's tag set, and the head
  request.
\<close>

datatype s3Command =
    PutObject string string string string
  | PutObjectTagging string string "(string \<times> string) list"
  | HeadObject string string

text \<open>
  The surroundings are parameters, gathered in a record: the bucket name; what reading a
  file and listing a directory give (the contents, or the exception); what the store
  answers to a command (\<open>None\<close> when the request resolves, otherwise the error it is
  rejected with); and, for the patch uploads that run side by side, the time at which
  the upload of a file settles.
\<close>

record surroundings =
  s3Bucket :: string
  fsReadFile :: "string \<Rightarrow> error + string"
  fsReaddir :: "string \<Rightarrow> error + string list"
  s3Send :: "s3Command \<Rightarrow> error option"
  settleTime :: "string \<Rightarrow> nat"

definition errCode :: "error \<Rightarrow> string option" where
  "errCode e = (case e of TypeError \<Rightarrow> None | Exception n c m \<Rightarrow> c)"

definition uploadFailed :: error where
  "uploadFailed = Exception ''Error'' None ''Failed to upload extension to S3''"

definition uploadToS3 ::
  "surroundings \<Rightarrow> string \<Rightarrow> string \<Rightarrow> string \<Rightarrow> string \<Rightarrow> (error + unit) \<times> s3Command list" where
  "uploadToS3 env path bucket key contentType =
     (case fsReadFile env path of
        Inl e \<Rightarrow> (Inl e, [])
      | Inr body \<Rightarrow>
          (case s3Send env (PutObject bucket key body contentType) of
             None \<Rightarrow> (Inr (), [PutObject bucket key body contentType])
           | Some err \<Rightarrow> (Inl uploadFailed, [PutObject bucket key body contentType])))"

text \<open>
  \<open>PromiseAll\<close> is \<^verbatim>\<open>Promise.all\<close> on promises given with the time at which each
  settles: fulfilled with all the values when none is rejected, otherwise rejected with
  the reason of the rejection that settles first (the first in the array among
  rejections that settle together).
\<close>

fun rejections :: "(nat \<times> (error + 'a)) list \<Rightarrow> (nat \<times> error) list" where
  "rejections [] = []"
| "rejections ((t, Inl e) # ps) = (t, e) # rejections ps"
| "rejections ((t, Inr v) # ps) = rejections ps"

fun fulfilments :: "(nat \<times> (error + 'a)) list \<Rightarrow> 'a list" where
  "fulfilments [] = []"
| "fulfilments ((t, Inl e) # ps) = fulfilments ps"
| "fulfilments ((t, Inr v) # ps) = v # fulfilments ps"

fun firstSettled :: "nat \<times> error \<Rightarrow> (nat \<times> error) list \<Rightarrow> error" where
  "firstSettled r [] = snd r"
| "firstSettled r (x # xs) = firstSettled (if fst x < fst r then x else r) xs"

definition PromiseAll :: "(nat \<times> (error + 'a)) list \<Rightarrow> error + 'a list" where
  "PromiseAll ps =
     (case rejections ps of [] \<Rightarrow> Inr (fulfilments ps) | r # rs \<Rightarrow> Inl (firstSettled r rs))"

text \<open>
  The names \<open>uploadExtension\<close> derives from its arguments. \<^verbatim>\<open>\s\<close> matches the white
  space among the characters below 256; the tag keeps the characters that the tag
  restrictions allow.
\<close>

definition replaceDots :: "string \<Rightarrow> string" where
  "replaceDots v = map (\<lambda>c. if c = CHR ''.'' then CHR ''_'' else c) v"

definition isSpace :: "char \<Rightarrow> bool" where
  "isSpace c \<longleftrightarrow> (of_char c :: nat) \<in> {9, 10, 11, 12, 13, 32, 160}"

definition tagChars :: string where
  "tagChars = ''abcdefghijklmnopqrstuvwxyzABCDEFGHIJKLMNOPQRSTUVWXYZ0123456789+-=._:/@''"

definition componentFilename :: "string \<Rightarrow> string" where
  "componentFilename version = ''extension_'' @ replaceDots version @ ''.crx''"

definition componentName :: "string \<Rightarrow> string" where
  "componentName title = map (\<lambda>c. if isSpace c then CHR ''-'' else c) title"

definition componentNameTag :: "string \<Rightarrow> string" where
  "componentNameTag title = filter (\<lambda>c. c \<in> set tagChars) (componentName title)"

definition releaseKey :: "string \<Rightarrow> string \<Rightarrow> string" where
  "releaseKey ident version = ''release/'' @ ident @ ''/'' @ componentFilename version"

definition patchDir :: "string \<Rightarrow> string \<Rightarrow> string" where
  "patchDir ident hash = ''build/patches/'' @ ident @ ''/'' @ hash"

definition patchKey :: "string \<Rightarrow> string \<Rightarrow> string \<Rightarrow> string" where
  "patchKey ident hash entry = ''release/'' @ ident @ ''/patches/'' @ hash @ ''/'' @ entry"

text \<open>
  The upload jobs of the patches: \<open>puffEntries\<close> are the entries of the patch directory
  with the extension \<^verbatim>\<open>.puff\<close>; a missing directory (\<^verbatim>\<open>ENOENT\<close>) gives no entries and
  any other exception is thrown again. \<open>uploadJob\<close> is the upload of one entry. All jobs
  are started by the loop over the entries, before any of them is awaited, so the trace
  has the commands of all of them, in the order of the entries.
\<close>

definition puffEntries :: "surroundings \<Rightarrow> string \<Rightarrow> string \<Rightarrow> error + string list" where
  "puffEntries env ident hash =
     (case fsReaddir env (patchDir ident hash) of
        Inl e \<Rightarrow> if errCode e = Some ''ENOENT'' then Inr [] else Inl e
      | Inr entries \<Rightarrow>
          Inr (filter (\<lambda>entry. parseExt (pathJoin (patchDir ident hash) entry) = ''.puff'')
                 entries))"

definition uploadJob ::
  "surroundings \<Rightarrow> string \<Rightarrow> string \<Rightarrow> string \<Rightarrow> (error + unit) \<times> s3Command list" where
  "uploadJob env ident hash entry =
     uploadToS3 env (pathJoin (patchDir ident hash) entry) (s3Bucket env)
       (patchKey ident hash entry) ''application/octet-stream''"

definition uploadPatches ::
  "surroundings \<Rightarrow> string \<Rightarrow> string \<Rightarrow> (error + unit) \<times> s3Command list" where
  "uploadPatches env ident hash =
     (case puffEntries env ident hash of
        Inl e \<Rightarrow> (Inl e, [])
      | Inr entries \<Rightarrow>
          let uploadJobs = map (uploadJob env ident hash) entries;
              started = concat (map snd uploadJobs)
          in (case PromiseAll
                     (map (\<lambda>entry. (settleTime env (pathJoin (patchDir ident hash) entry),
                                     fst (uploadJob env ident hash entry))) entries) of
                Inl e \<Rightarrow> (Inl e, started)
              | Inr done \<Rightarrow> (Inr (), started)))"

text \<open>
  The tags: the new object gets the component-name tag and the latest marker; then the
  previous version's object is looked up, and re-tagged with the component-name tag
  alone when the head request resolves. A head request rejected with an error whose
  \<^verbatim>\<open>code\<close> is \<^verbatim>\<open>NotFound\<close> ends the function normally.
\<close>

definition newTagging :: "surroundings \<Rightarrow> string \<Rightarrow> string \<Rightarrow> string \<Rightarrow> s3Command" where
  "newTagging env title ident version =
     PutObjectTagging (s3Bucket env) (releaseKey ident version)
       [(componentNameTag title, version), (''version'', componentNameTag title @ ''/latest'')]"

definition previousHead ::
  "(string \<Rightarrow> int \<Rightarrow> string) \<Rightarrow> surroundings \<Rightarrow> string \<Rightarrow> string \<Rightarrow> s3Command" where
  "previousHead inexact env ident version =
     HeadObject (s3Bucket env) (releaseKey ident (getPreviousVersion inexact version None))"

definition previousTagging ::
  "(string \<Rightarrow> int \<Rightarrow> string) \<Rightarrow> surroundings \<Rightarrow> string \<Rightarrow> string \<Rightarrow> string \<Rightarrow> s3Command" where
  "previousTagging inexact env title ident version =
     PutObjectTagging (s3Bucket env) (releaseKey ident (getPreviousVersion inexact version None))
       [(componentNameTag title, getPreviousVersion inexact version None)]"

definition updateTags ::
  "(string \<Rightarrow> int \<Rightarrow> string) \<Rightarrow> surroundings \<Rightarrow> string \<Rightarrow> string \<Rightarrow> string
     \<Rightarrow> (error + unit) \<times> s3Command list" where
  "updateTags inexact env title ident version =
     (case s3Send env (newTagging env title ident version) of
        Some err \<Rightarrow> (Inl uploadFailed, [newTagging env title ident version])
      | None \<Rightarrow>
          (case s3Send env (previousHead inexact env ident version) of
             Some err \<Rightarrow>
               if errCode err = Some ''NotFound''
               then (Inr (),
                     [newTagging env title ident version, previousHead inexact env ident version])
               else (Inl (Exception ''Error'' None ''Unexpected error with HeadObject command''),
                     [newTagging env title ident version, previousHead inexact env ident version])
           | None \<Rightarrow>
               (case s3Send env (previousTagging inexact env title ident version) of
                  Some err \<Rightarrow>
                    (Inl uploadFailed,
                     [newTagging env title ident version, previousHead inexact env ident version,
                      previousTagging inexact env title ident version])
                | None \<Rightarrow>
                    (Inr (),
                     [newTagging env title ident version, previousHead inexact env ident version,
                      previousTagging inexact env title ident version]))))"

text \<open>
  \<open>uploadExtension\<close>: the artifact, then the patches, then the tags; the first phase
  that fails ends the function with its error. The result is paired with the commands
  sent. Console output is not recorded.
\<close>

definition uploadExtension ::
  "(string \<Rightarrow> int \<Rightarrow> string) \<Rightarrow> surroundings \<Rightarrow> string \<Rightarrow> string \<Rightarrow> string \<Rightarrow> string \<Rightarrow> string
     \<Rightarrow> (error + unit) \<times> s3Command list" where
  "uploadExtension inexact env title ident version hash crxFile =
     (case uploadToS3 env crxFile (s3Bucket env) (releaseKey ident version)
             ''application/x-chrome-extension'' of
        (Inl e, sent) \<Rightarrow> (Inl e, sent)
      | (Inr u, sent) \<Rightarrow>
          (case uploadPatches env ident hash of
             (Inl e, sent') \<Rightarrow> (Inl e, sent @ sent')
           | (Inr u', sent') \<Rightarrow>
               (case updateTags inexact env title ident version of
                  (r, sent'') \<Rightarrow> (r, sent @ sent' @ sent''))))"

text \<open>
  Example surroundings: no patch directory, and a store that accepts every command but
  answers the head request the way the version 3 client reports a missing object: an
  error with the name \<^verbatim>\<open>NotFound\<close> and no \<^verbatim>\<open>code\<close> field.
\<close>

definition missingPreviousSurroundings :: surroundings where
  "missingPreviousSurroundings =
     \<lparr>s3Bucket = ''brave-core-ext'',
      fsReadFile = (\<lambda>p. Inr (''bytes of '' @ p)),
      fsReaddir = (\<lambda>d. Inl (Exception ''Error'' (Some ''ENOENT'') ''no such file or directory'')),
      s3Send = (\<lambda>c. case c of
                       HeadObject b k \<Rightarrow> Some (Exception ''NotFound'' None ''UnknownError'')
                     | _ \<Rightarrow> None),
      settleTime = (\<lambda>p. 0)\<rparr>"

text \<open>
  An example for the batch: three patch files and a stray file. The first patch is
  refused by the store, the second cannot be read (and that failure settles first), the
  third is uploaded.
\<close>

definition failingSurroundings :: surroundings where
  "failingSurroundings =
     \<lparr>s3Bucket = ''brave-core-ext'',
      fsReadFile = (\<lambda>p. if p = ''build/patches/id/hh/b.puff''
                         then Inl (Exception ''Error'' (Some ''EACCES'') ''permission denied'')
                         else Inr (''bytes of '' @ p)),
      fsReaddir = (\<lambda>d. Inr [''a.puff'', ''b.puff'', ''c.puff'', ''notes.txt'']),
      s3Send = (\<lambda>c. case c of
                       PutObject b k body ct \<Rightarrow>
                         if k = ''release/id/patches/hh/a.puff''
                         then Some (Exception ''AccessDenied'' None ''Access Denied'') else None
                     | _ \<Rightarrow> None),
      settleTime = (\<lambda>p. if p = ''build/patches/id/hh/b.puff'' then 1 else 2)\<rparr>"

section \<open>Facts about splitting, joining and decimal numerals\<close>

lemma split_not_Nil: "split sep s \<noteq> []"
  by (induction s) (auto split: list.splits)

lemma join_Cons: "ps \<noteq> [] \<Longrightarrow> join sep (p # ps) = p @ sep @ join sep ps"
  by (cases ps) auto

lemma join_split: "join [sep] (split sep s) = s"
proof (induction s)
  case Nil
  show ?case by simp
next
  case (Cons c cs)
  show ?case
  proof (cases "c = sep")
    case True
    with Cons show ?thesis by (simp add: join_Cons split_not_Nil)
  next
    case False
    obtain p ps where sp: "split sep cs = p # ps"
      using split_not_Nil [of sep cs] by (cases "split sep cs") auto
    from Cons sp have "cs = join [sep] (p # ps)" by simp
    moreover have "join [sep] ((c # p) # ps) = c # join [sep] (p # ps)"
      by (cases ps) auto
    ultimately show ?thesis using False sp by simp
  qed
qed

lemma split_no_sep: "p \<in> set (split sep s) \<Longrightarrow> sep \<notin> set p"
proof (induction s arbitrary: p)
  case Nil
  then show ?case by simp
next
  case (Cons c cs)
  then show ?case
    by (cases "split sep cs") (auto split: if_splits)
qed

lemma split_append_no_sep:
  "sep \<notin> set p \<Longrightarrow> split sep (p @ sep # s) = p # split sep s"
  by (induction p) auto

lemma split_no_sep_single: "sep \<notin> set p \<Longrightarrow> split sep p = [p]"
  by (induction p) auto

lemma split_join:
  "ps \<noteq> [] \<Longrightarrow> (\<And>p. p \<in> set ps \<Longrightarrow> sep \<notin> set p) \<Longrightarrow> split sep (join [sep] ps) = ps"
proof (induction ps)
  case Nil
  then show ?case by simp
next
  case (Cons p ps)
  show ?case
  proof (cases "ps = []")
    case True
    with Cons.prems show ?thesis by (simp add: split_no_sep_single)
  next
    case False
    with Cons have "split sep (join [sep] ps) = ps" by simp
    moreover have "sep \<notin> set p" using Cons.prems by simp
    ultimately show ?thesis using False
      by (simp add: join_Cons split_append_no_sep)
  qed
qed

lemma less_ten_cases:
  "d < 10 \<Longrightarrow>
   d = 0 \<or> d = 1 \<or> d = 2 \<or> d = 3 \<or> d = 4 \<or> d = 5 \<or> d = 6 \<or> d = 7 \<or> d = 8 \<or> d = (9::nat)"
  by arith

lemma digitVal_digitChar: "d < 10 \<Longrightarrow> digitVal (digitChar d) = Some d"
  using less_ten_cases [of d] by (auto simp: digitChar_def digitVal_def)

lemma digitChar_digit: "d < 10 \<Longrightarrow> digitChar d \<in> set ''0123456789''"
  using less_ten_cases [of d] by (auto simp: digitChar_def)

lemma digitsValue_append:
  "digitsValue acc (xs @ ys) =
     (case digitsValue acc xs of None \<Rightarrow> None | Some a \<Rightarrow> digitsValue a ys)"
  by (induction xs arbitrary: acc) (auto split: option.splits)

lemma digitsValue_decimal: "digitsValue 0 (decimal n) = Some n"
proof (induction n rule: decimal.induct)
  case (1 n)
  show ?case
  proof (cases "n < 10")
    case True
    then show ?thesis
      by (subst decimal.simps) (simp add: digitVal_digitChar)
  next
    case False
    with 1 have ih: "digitsValue 0 (decimal (n div 10)) = Some (n div 10)" by simp
    have "n mod 10 < 10" by simp
    then have "digitVal (digitChar (n mod 10)) = Some (n mod 10)" by (rule digitVal_digitChar)
    with False ih show ?thesis
      by (subst decimal.simps) (simp add: digitsValue_append)
  qed
qed

lemma decimal_not_Nil: "decimal n \<noteq> []"
  by (subst decimal.simps) simp

lemma decimal_digits: "set (decimal n) \<subseteq> set ''0123456789''"
proof (induction n rule: decimal.induct)
  case (1 n)
  show ?case
  proof (cases "n < 10")
    case True
    then show ?thesis using digitChar_digit [of n] by (subst decimal.simps) simp
  next
    case False
    with 1 have "set (decimal (n div 10)) \<subseteq> set ''0123456789''" by simp
    moreover have "digitChar (n mod 10) \<in> set ''0123456789''" by (rule digitChar_digit) simp
    ultimately show ?thesis using False by (subst decimal.simps) simp
  qed
qed

lemma decimalDigits_decimal: "decimalDigits (decimal n) = Some n"
  by (simp add: decimalDigits_def decimal_not_Nil digitsValue_decimal)

lemma ToNumber_ToString: "exactInt n \<Longrightarrow> ToNumber (ToString n) = Some n"
proof (cases "n < 0")
  case True
  assume "exactInt n"
  with True show ?thesis
    by (simp add: ToNumber_def ToString_def decimalDigits_decimal)
next
  case False
  assume ex: "exactInt n"
  obtain c cs where d: "decimal (nat n) = c # cs"
    using decimal_not_Nil [of "nat n"] by (cases "decimal (nat n)") auto
  have "c \<in> set ''0123456789''" using decimal_digits [of "nat n"] d by auto
  then have "c \<noteq> CHR ''-''" "c \<noteq> CHR ''+''" by auto
  moreover have "decimalDigits (c # cs) = Some (nat n)"
    using decimalDigits_decimal [of "nat n"] d by simp
  ultimately show ?thesis using False ex d
    by (simp add: ToNumber_def ToString_def)
qed

lemma ToString_no_dot: "CHR ''.'' \<notin> set (ToString n)"
  using decimal_digits [of "nat n"] decimal_digits [of "nat (- n)"]
  by (auto simp: ToString_def)

lemma ToNumber_exact: "ToNumber s = Some n \<Longrightarrow> exactInt n"
  by (auto simp: ToNumber_def split: option.splits if_splits list.splits)

lemma set_last_segment:
  "ps \<noteq> [] \<Longrightarrow> ps[length ps - Suc 0 := x] = butlast ps @ [x]"
  by (induction ps rule: rev_induct) (simp_all add: list_update_append)

lemma nth_last_segment: "ps \<noteq> [] \<Longrightarrow> ps ! (length ps - Suc 0) = last ps"
  by (simp add: last_conv_nth)

lemma incrementVersion_parts:
  "incrementVersion inexact version =
     join ''.'' (butlast (split CHR ''.'' version)
                 @ [addNumber inexact (last (split CHR ''.'' version)) 1])"
  by (simp add: incrementVersion_def Let_def set_last_segment nth_last_segment split_not_Nil)

lemma getPreviousVersion_parts:
  "version \<noteq> FirstVersion \<Longrightarrow>
   getPreviousVersion inexact version diff =
     join ''.'' (butlast (split CHR ''.'' version)
                 @ [addNumber inexact (last (split CHR ''.'' version))
                      (- (case diff of None \<Rightarrow> 1 | Some d \<Rightarrow> d))])"
  by (simp add: getPreviousVersion_def Let_def set_last_segment nth_last_segment split_not_Nil)

lemma split_join_parts:
  "CHR ''.'' \<notin> set x \<Longrightarrow>
   split CHR ''.'' (join ''.'' (butlast (split CHR ''.'' v) @ [x]))
     = butlast (split CHR ''.'' v) @ [x]"
proof (rule split_join)
  show "butlast (split CHR ''.'' v) @ [x] \<noteq> []" by simp
next
  fix p
  assume x: "CHR ''.'' \<notin> set x" and p: "p \<in> set (butlast (split CHR ''.'' v) @ [x])"
  show "CHR ''.'' \<notin> set p"
  proof (cases "p = x")
    case True
    with x show ?thesis by simp
  next
    case False
    with p have "p \<in> set (split CHR ''.'' v)" by (auto dest: in_set_butlastD)
    then show ?thesis by (rule split_no_sep)
  qed
qed

lemma addNumber_exact:
  "ToNumber seg = Some n \<Longrightarrow> exactInt k \<Longrightarrow> exactInt (n + k) \<Longrightarrow>
   addNumber inexact seg k = ToString (n + k)"
  by (simp add: addNumber_def)

lemma ToString_int: "ToString (int n) = decimal n"
  by (simp add: ToString_def)

lemma decimal_inj: "decimal m = decimal n \<Longrightarrow> m = n"
  by (metis digitsValue_decimal option.inject)

lemma getPreviousVersion_example:
  "getPreviousVersion inexact ''1.0.2'' (Some 3) = ''1.0.-1''"
  by (simp add: getPreviousVersion_def FirstVersion_def addNumber_def ToNumber_def
      decimalDigits_def digitVal_def exactInt_def ToString_def decimal.simps digitChar_def)

section \<open>Properties of version arithmetic\<close>

text \<open>
  Claim C4. \<open>incrementVersion\<close> changes only the trailing dotted segment: when that
  segment reads as the integer \<open>n\<close> (and \<open>n + 1\<close> is still exactly representable), the
  parts of the result are the earlier parts, unchanged, followed by the decimal numeral of
  \<open>n + 1\<close>, which reads back as \<open>n + 1\<close>. Nothing rolls over into an earlier segment:
  the increment of 1.0.9 is 1.0.10.
\<close>

theorem incrementVersion_trailing_segment:
  assumes "ToNumber (last (split CHR ''.'' version)) = Some n" and "n < 2 ^ 53"
  shows "split CHR ''.'' (incrementVersion inexact version)
           = butlast (split CHR ''.'' version) @ [ToString (n + 1)]
         \<and> ToNumber (last (split CHR ''.'' (incrementVersion inexact version))) = Some (n + 1)
         \<and> incrementVersion inexact ''1.0.9'' = ''1.0.10''"
proof -
  have ex: "exactInt n" using assms(1) by (rule ToNumber_exact)
  with assms(2) have ex1: "exactInt (n + 1)" by (simp add: exactInt_def)
  have "exactInt 1" by (simp add: exactInt_def)
  with assms(1) ex1 have a: "addNumber inexact (last (split CHR ''.'' version)) 1 = ToString (n + 1)"
    by (simp add: addNumber_exact)
  have parts: "split CHR ''.'' (incrementVersion inexact version)
           = butlast (split CHR ''.'' version) @ [ToString (n + 1)]"
    by (simp only: incrementVersion_parts a split_join_parts [OF ToString_no_dot])
  have "ToNumber (last (split CHR ''.'' (incrementVersion inexact version))) = Some (n + 1)"
    using ex1 by (simp add: parts ToNumber_ToString)
  moreover have "incrementVersion inexact ''1.0.9'' = ''1.0.10''"
    by (simp add: incrementVersion_def addNumber_def ToNumber_def decimalDigits_def digitVal_def
        exactInt_def ToString_def decimal.simps digitChar_def)
  ultimately show ?thesis using parts by simp
qed

theorem incrementVersion_trailing_segment_witness:
  "split CHR ''.'' (incrementVersion (\<lambda>seg k. ''NaN'') ''2.5.099'') = [''2'', ''5'', ''100'']
   \<and> ToNumber (last (split CHR ''.'' (incrementVersion (\<lambda>seg k. ''NaN'') ''2.5.099''))) = Some 100"
proof -
  have n: "ToNumber (last (split CHR ''.'' ''2.5.099'')) = Some 99"
    by (simp add: ToNumber_def decimalDigits_def digitVal_def exactInt_def)
  have b: "(99::int) < 2 ^ 53" by simp
  have s: "ToString (99 + 1) = ''100''" by code_simp
  have t: "ToNumber ''100'' = Some 100"
    by (simp add: ToNumber_def decimalDigits_def digitVal_def exactInt_def)
  have p: "butlast (split CHR ''.'' ''2.5.099'') = [''2'', ''5'']" by simp
  note th = incrementVersion_trailing_segment [OF n b, of "\<lambda>seg k. ''NaN''"]
  from th have "split CHR ''.'' (incrementVersion (\<lambda>seg k. ''NaN'') ''2.5.099'')
      = [''2'', ''5''] @ [''100'']"
    by (simp only: s p)
  moreover from th have "ToNumber (last (split CHR ''.'' (incrementVersion (\<lambda>seg k. ''NaN'') ''2.5.099'')))
      = Some 100"
    by (simp only: s p) (simp add: t)
  ultimately show ?thesis by simp
qed

text \<open>
  Claim C3, as amended. When the trailing segment is the decimal numeral of a natural
  number \<open>n < 2 ^ 53\<close>, as the code itself prints it (no leading zero), incrementing and then
  taking the previous version with \<open>diff = 1\<close> (given or left out) returns the version
  unchanged. This includes the first version 1.0.0.
\<close>

theorem increment_then_previous:
  assumes "last (split CHR ''.'' v) = decimal n" and "n < 2 ^ 53"
  shows "getPreviousVersion inexact (incrementVersion inexact v) (Some 1) = v
         \<and> getPreviousVersion inexact (incrementVersion inexact v) None = v"
proof -
  let ?ps = "split CHR ''.'' v"
  let ?w = "incrementVersion inexact v"
  have en: "exactInt (int n)" "exactInt (int n + 1)" "exactInt 1" "exactInt (- 1)"
    using assms(2) by (simp_all add: exactInt_def)
  have "ToNumber (decimal n) = Some (int n)"
    using ToNumber_ToString [OF en(1)] by (simp add: ToString_int)
  with en have "addNumber inexact (last ?ps) 1 = ToString (int n + 1)"
    by (simp add: assms(1) addNumber_exact)
  also have "\<dots> = decimal (Suc n)"
    using ToString_int [of "Suc n"] by (simp add: add.commute)
  finally have a: "addNumber inexact (last ?ps) 1 = decimal (Suc n)" .
  have nodot: "CHR ''.'' \<notin> set (decimal (Suc n))"
    using decimal_digits [of "Suc n"] by auto
  have w: "?w = join ''.'' (butlast ?ps @ [decimal (Suc n)])"
    by (simp only: incrementVersion_parts a)
  have parts: "split CHR ''.'' ?w = butlast ?ps @ [decimal (Suc n)]"
    by (simp only: w split_join_parts [OF nodot])
  have notfirst: "?w \<noteq> FirstVersion"
  proof
    assume "?w = FirstVersion"
    then have "split CHR ''.'' ?w = [''1'', ''0'', ''0'']" by (simp add: FirstVersion_def)
    with parts have "last (butlast ?ps @ [decimal (Suc n)]) = last [''1'', ''0'', ''0'']"
      by simp
    then have "decimal (Suc n) = ''0''" by simp
    moreover have "decimal 0 = ''0''" by (simp add: decimal.simps digitChar_def)
    ultimately have "Suc n = 0" using decimal_inj [of "Suc n" 0] by simp
    then show False by simp
  qed
  have "exactInt (int (Suc n))" using en(2) by (simp add: add.commute)
  then have "ToNumber (decimal (Suc n)) = Some (int (Suc n))"
    using ToNumber_ToString [of "int (Suc n)"] by (simp only: ToString_int)
  moreover have "exactInt (int (Suc n) + (- 1))" using en(1) by simp
  ultimately have "addNumber inexact (decimal (Suc n)) (- 1) = ToString (int (Suc n) + (- 1))"
    using en(4) addNumber_exact [of "decimal (Suc n)" "int (Suc n)" "- 1" inexact] by blast
  then have b: "addNumber inexact (decimal (Suc n)) (- 1) = decimal n"
    by (simp add: ToString_int)
  have "join ''.'' (butlast ?ps @ [decimal n]) = join ''.'' ?ps"
    using assms(1) split_not_Nil [of "CHR ''.''" v] by (metis append_butlast_last_id)
  then have rejoin: "join ''.'' (butlast ?ps @ [decimal n]) = v"
    by (simp add: join_split)
  have "getPreviousVersion inexact ?w diff = v" if "diff = Some 1 \<or> diff = None" for diff
  proof -
    from that have d: "(case diff of None \<Rightarrow> 1 | Some d \<Rightarrow> d) = (1::int)" by auto
    show ?thesis
      by (simp only: getPreviousVersion_parts [OF notfirst] d parts butlast_snoc last_snoc b rejoin)
  qed
  then show ?thesis by simp
qed

theorem increment_then_previous_witness:
  "getPreviousVersion (\<lambda>seg k. ''NaN'') (incrementVersion (\<lambda>seg k. ''NaN'') ''1.0.0'') (Some 1) = ''1.0.0''
   \<and> getPreviousVersion (\<lambda>seg k. ''NaN'') (incrementVersion (\<lambda>seg k. ''NaN'') ''1.0.0'') None = ''1.0.0''"
proof -
  have n: "last (split CHR ''.'' ''1.0.0'') = decimal 0"
    by (simp add: decimal.simps digitChar_def)
  have b: "(0::nat) < 2 ^ 53" by simp
  show ?thesis
    using increment_then_previous [OF n b, of "\<lambda>seg k. ''NaN''"] by simp
qed

text \<open>
  Claim C3 as stated fails on a three-part dotted numeric version whose trailing segment
  has a leading zero: the segment goes through a Number and comes back without the zero.
\<close>

theorem increment_then_previous_leading_zero:
  "numericVersion ''1.0.01'' \<and> ''1.0.01'' \<noteq> FirstVersion
   \<and> incrementVersion (\<lambda>seg k. ''NaN'') ''1.0.01'' = ''1.0.2''
   \<and> getPreviousVersion (\<lambda>seg k. ''NaN'') (incrementVersion (\<lambda>seg k. ''NaN'') ''1.0.01'') (Some 1)
       = ''1.0.1''
   \<and> getPreviousVersion (\<lambda>seg k. ''NaN'') (incrementVersion (\<lambda>seg k. ''NaN'') ''1.0.01'') (Some 1)
       \<noteq> ''1.0.01''"
  by (simp add: numericVersion_def isDigits_def FirstVersion_def incrementVersion_def
      getPreviousVersion_def addNumber_def ToNumber_def decimalDigits_def digitVal_def exactInt_def
      ToString_def decimal.simps digitChar_def)

text \<open>
  Claim C10. \<open>getPreviousVersion\<close> returns early only on the string 1.0.0 itself. On every
  other version of three parts whose trailing segment reads as the integer \<open>n\<close> it replaces
  that segment by the numeral of \<open>n - d\<close>, also when \<open>n - d\<close> is negative: the previous
  version of 1.0.2 at distance 3 is 1.0.-1, which is not a numeric version.
\<close>

theorem getPreviousVersion_subtracts:
  "getPreviousVersion inexact FirstVersion diff = FirstVersion
   \<and> (version \<noteq> FirstVersion \<and> split CHR ''.'' version = [a, b, c] \<and> ToNumber c = Some n
        \<and> exactInt d \<and> exactInt (n - d)
      \<longrightarrow> getPreviousVersion inexact version (Some d) = join ''.'' [a, b, ToString (n - d)])
   \<and> getPreviousVersion inexact ''1.0.2'' (Some 3) = ''1.0.-1''
   \<and> \<not> numericVersion (getPreviousVersion inexact ''1.0.2'' (Some 3))"
proof -
  have first: "getPreviousVersion inexact FirstVersion diff = FirstVersion"
    by (simp add: getPreviousVersion_def)
  have other: "getPreviousVersion inexact version (Some d) = join ''.'' [a, b, ToString (n - d)]"
    if nf: "version \<noteq> FirstVersion" and sp: "split CHR ''.'' version = [a, b, c]"
      and num: "ToNumber c = Some n" and ed: "exactInt d" and er: "exactInt (n - d)"
  proof -
    from ed have "exactInt (- d)" by (simp add: exactInt_def)
    moreover from er have "exactInt (n + (- d))" by simp
    ultimately have "addNumber inexact c (- d) = ToString (n + (- d))"
      using num by (simp add: addNumber_exact)
    then show ?thesis
      by (simp add: getPreviousVersion_parts [OF nf] sp)
  qed
  have "\<not> numericVersion ''1.0.-1''"
    by (simp add: numericVersion_def isDigits_def digitVal_def)
  with first other getPreviousVersion_example [of inexact] show ?thesis by simp
qed

theorem getPreviousVersion_subtracts_witness:
  "getPreviousVersion (\<lambda>seg k. ''NaN'') ''1.0.00'' (Some 1) = ''1.0.-1''
   \<and> getPreviousVersion (\<lambda>seg k. ''NaN'') ''1.0.7'' (Some 3) = ''1.0.4''
   \<and> getPreviousVersion (\<lambda>seg k. ''NaN'') ''1.0.0'' (Some 3) = ''1.0.0''"
proof -
  have z: "''1.0.00'' \<noteq> FirstVersion \<and> split CHR ''.'' ''1.0.00'' = [''1'', ''0'', ''00'']
      \<and> ToNumber ''00'' = Some 0 \<and> exactInt 1 \<and> exactInt (0 - 1)"
    by (simp add: FirstVersion_def ToNumber_def decimalDigits_def digitVal_def exactInt_def)
  have s: "''1.0.7'' \<noteq> FirstVersion \<and> split CHR ''.'' ''1.0.7'' = [''1'', ''0'', ''7'']
      \<and> ToNumber ''7'' = Some 7 \<and> exactInt 3 \<and> exactInt (7 - 3)"
    by (simp add: FirstVersion_def ToNumber_def decimalDigits_def digitVal_def exactInt_def)
  have p: "ToString (0 - 1) = ''-1''" "ToString (7 - 3) = ''4''" by code_simp+
  have "getPreviousVersion (\<lambda>seg k. ''NaN'') ''1.0.00'' (Some 1) = join ''.'' [''1'', ''0'', ToString (0 - 1)]"
    using getPreviousVersion_subtracts [of "\<lambda>seg k. ''NaN''" None "''1.0.00''" "''1''" "''0''" "''00''" 0 1] z
    by blast
  moreover have "getPreviousVersion (\<lambda>seg k. ''NaN'') ''1.0.7'' (Some 3) = join ''.'' [''1'', ''0'', ToString (7 - 3)]"
    using getPreviousVersion_subtracts [of "\<lambda>seg k. ''NaN''" None "''1.0.7''" "''1''" "''0''" "''7''" 7 3] s
    by blast
  moreover have "getPreviousVersion (\<lambda>seg k. ''NaN'') ''1.0.0'' (Some 3) = ''1.0.0''"
    using getPreviousVersion_subtracts [of "\<lambda>seg k. ''NaN''" "Some 3" "''1.0.7''" "''1''" "''0''" "''7''" 7 3]
    by (simp add: FirstVersion_def)
  ultimately show ?thesis by (simp only: p) simp
qed

section \<open>Properties of the version ledger\<close>

text \<open>
  Claim C2. With no record stored for the identity, \<open>getNextVersion\<close> returns the first
  version 1.0.0, whatever the content hash.
\<close>

theorem getNextVersion_no_record:
  "tbl i = None \<Longrightarrow>
   getNextVersion inexact tbl i contentHash = Inr (Some ''1.0.0'')
   \<and> getNextVersion inexact tbl i contentHash = Inr (Some FirstVersion)"
  by (simp add: getNextVersion_def query_def nextVersionOf_def FirstVersion_def)

theorem getNextVersion_no_record_witness:
  "getNextVersion (\<lambda>seg k. ''NaN'')
     (Map.empty(''abc'' \<mapsto> \<lparr>Version = Some (S ''1.0.4''), ContentHash = None\<rparr>))
     ''xyz'' (Some ''h1'') = Inr (Some ''1.0.0'')"
  using getNextVersion_no_record
    [of "Map.empty(''abc'' \<mapsto> \<lparr>Version = Some (S ''1.0.4''), ContentHash = None\<rparr>)" "''xyz''"
        "\<lambda>seg k. ''NaN''" "Some ''h1''"]
  by simp

text \<open>
  Claim C1, as amended. \<open>getNextVersion\<close> returns the no-change signal exactly when a
  record is stored for the identity whose version attribute is present and is not the
  empty string, and whose content hash is a stored string equal to the content hash
  given.
\<close>

theorem getNextVersion_NoChange_iff:
  "getNextVersion inexact tbl i contentHash = Inr None \<longleftrightarrow>
     (\<exists>it v h. tbl i = Some it \<and> Version it = Some v \<and> attrS v \<noteq> Some ''''
        \<and> ContentHash it = Some (S h) \<and> contentHash = Some h)"
  by (cases "tbl i")
     (auto simp: getNextVersion_def query_def nextVersionOf_def attrS_def
           split: option.splits attributeValue.splits)

theorem getNextVersion_NoChange_iff_witness:
  "getNextVersion (\<lambda>seg k. ''NaN'')
     (Map.empty(''abc'' \<mapsto> \<lparr>Version = Some (S ''1.0.4''), ContentHash = Some (S ''h1'')\<rparr>))
     ''abc'' (Some ''h1'') = Inr None"
  using getNextVersion_NoChange_iff
    [of "\<lambda>seg k. ''NaN''"
        "Map.empty(''abc'' \<mapsto> \<lparr>Version = Some (S ''1.0.4''), ContentHash = Some (S ''h1'')\<rparr>)"
        "''abc''" "Some ''h1''"]
  by (simp add: attrS_def)

text \<open>
  Claim C1 as stated fails on a record whose stored version is the empty string: the
  record exists and its stored content hash equals the one given, and the answer is the
  first version, not the no-change signal.
\<close>

theorem getNextVersion_empty_version:
  "(Map.empty(''abc'' \<mapsto> \<lparr>Version = Some (S ''''), ContentHash = Some (S ''h1'')\<rparr>)) ''abc''
     = Some \<lparr>Version = Some (S ''''), ContentHash = Some (S ''h1'')\<rparr>
   \<and> ContentHash \<lparr>Version = Some (S ''''), ContentHash = Some (S ''h1'')\<rparr> = Some (S ''h1'')
   \<and> getNextVersion (\<lambda>seg k. ''NaN'')
        (Map.empty(''abc'' \<mapsto> \<lparr>Version = Some (S ''''), ContentHash = Some (S ''h1'')\<rparr>))
        ''abc'' (Some ''h1'') = Inr (Some ''1.0.0'')
   \<and> getNextVersion (\<lambda>seg k. ''NaN'')
        (Map.empty(''abc'' \<mapsto> \<lparr>Version = Some (S ''''), ContentHash = Some (S ''h1'')\<rparr>))
        ''abc'' (Some ''h1'') \<noteq> Inr None"
  by (simp add: getNextVersion_def query_def nextVersionOf_def attrS_def)

section \<open>Properties of the component identity\<close>

lemma nibble_less: "unat ((x :: 256 word) AND 15) < 16"
proof -
  have "x AND 15 \<le> 15" by (rule word_and_le1)
  then have "unat (x AND 15) \<le> unat (15 :: 256 word)" by (simp add: word_le_nat_alt)
  then show ?thesis by simp
qed

lemma indexOf_nth: "distinct xs \<Longrightarrow> i < length xs \<Longrightarrow> indexOf xs (xs ! i) = Some i"
proof (induction xs arbitrary: i)
  case Nil
  then show ?case by simp
next
  case (Cons x xs)
  then show ?case by (cases i) auto
qed

lemma replaceHex_nibble: "n < 16 \<Longrightarrow> replaceHex (hexDigits ! n) = ''abcdefghijklmnop'' ! n"
proof -
  assume n: "n < 16"
  have "distinct hexDigits" by (simp add: hexDigits_def)
  moreover have "n < length hexDigits" using n by (simp add: hexDigits_def)
  ultimately have "indexOf hexDigits (hexDigits ! n) = Some n" by (rule indexOf_nth)
  then show ?thesis by (simp add: replaceHex_def)
qed

lemma length_hexDigest: "length (hexDigest w) = 64"
  by (simp add: hexDigest_def)

text \<open>
  Claim C9. For every key (and whatever the decoder and the hash return), the identity
  has exactly 32 characters, each of them one of the letters a to p; and the identity is
  a function of the key: the same key gives the same identity.
\<close>

theorem getIDFromBase64PublicKey_shape:
  "length (getIDFromBase64PublicKey sha256 fromBase64 key) = 32
   \<and> (\<forall>c \<in> set (getIDFromBase64PublicKey sha256 fromBase64 key). c \<in> set ''abcdefghijklmnop'')
   \<and> (key' = key \<longrightarrow>
        getIDFromBase64PublicKey sha256 fromBase64 key' = getIDFromBase64PublicKey sha256 fromBase64 key)"
proof -
  let ?d = "hexDigest (sha256 (fromBase64 key))"
  have len: "length (getIDFromBase64PublicKey sha256 fromBase64 key) = 32"
    by (simp add: getIDFromBase64PublicKey_def Let_def length_hexDigest)
  have "c \<in> set ''abcdefghijklmnop''"
    if "c \<in> set (getIDFromBase64PublicKey sha256 fromBase64 key)" for c
  proof -
    from that obtain h where h: "h \<in> set (take 32 ?d)" and c: "c = replaceHex h"
      by (auto simp: getIDFromBase64PublicKey_def Let_def)
    from h have "h \<in> set ?d" by (rule in_set_takeD)
    then obtain i where
      "h = hexDigits ! unat (drop_bit (4 * (63 - i)) (sha256 (fromBase64 key)) AND 15)"
      by (auto simp: hexDigest_def)
    then obtain n where n: "n < 16" and hn: "h = hexDigits ! n" using nibble_less by blast
    have "''abcdefghijklmnop'' ! n \<in> set ''abcdefghijklmnop''"
      by (rule nth_mem) (use n in simp)
    with c hn n show ?thesis by (simp only: replaceHex_nibble)
  qed
  with len show ?thesis by blast
qed

text \<open>
  The witness is the identity of the empty key: the decoded key is the empty byte string,
  whose SHA-256 digest is the constant below.
\<close>

theorem getIDFromBase64PublicKey_shape_witness:
  "length (getIDFromBase64PublicKey
      (\<lambda>d. 0xe3b0c44298fc1c149afbf4c8996fb92427ae41e4649b934ca495991b7852b855) (\<lambda>k. []) '''') = 32
   \<and> set (getIDFromBase64PublicKey
      (\<lambda>d. 0xe3b0c44298fc1c149afbf4c8996fb92427ae41e4649b934ca495991b7852b855) (\<lambda>k. []) '''')
     \<subseteq> set ''abcdefghijklmnop''"
  using getIDFromBase64PublicKey_shape
    [of "\<lambda>d. 0xe3b0c44298fc1c149afbf4c8996fb92427ae41e4649b934ca495991b7852b855" "\<lambda>k. []" "''''" "''''"]
  by blast

lemma getIDFromBase64PublicKey_empty_key:
  "getIDFromBase64PublicKey
     (\<lambda>d. 0xe3b0c44298fc1c149afbf4c8996fb92427ae41e4649b934ca495991b7852b855) (\<lambda>k. []) ''''
   = ''odlameecjipmbmbejkplpemijjgpljce''"
  by code_simp

section \<open>Properties of the retrying fetch\<close>








section \<open>Properties of patch generation\<close>

lemma forEachPrevious_all:
  "crxFile \<noteq> [] \<Longrightarrow>
   forEachPrevious resolve spawnSync crxFile downloadDir outputDir files =
     (Inr (), concat (map (entryEvents resolve spawnSync crxFile downloadDir outputDir) files))"
  by (induction files)
     (simp_all add: generatePuffDiff_def entryEvents_def pathJoin_def Let_def)

lemma entryEvents_spawn:
  "parseExt (pathJoin downloadDir file) = ''.crx'' \<Longrightarrow>
   SpawnSync ''puffin''
     (puffArgs resolve (pathJoin downloadDir file) crxFile
        (outputDir @ ''/'' @ parseName (pathJoin downloadDir file) @ ''.puff''))
   \<in> set (entryEvents resolve spawnSync crxFile downloadDir outputDir file)"
  by (simp add: entryEvents_def Let_def)

lemma entryEvents_logged:
  "parseExt (pathJoin downloadDir file) = ''.crx'' \<Longrightarrow>
   spawnSync (puffArgs resolve (pathJoin downloadDir file) crxFile
        (outputDir @ ''/'' @ parseName (pathJoin downloadDir file) @ ''.puff'')) = Some m \<Longrightarrow>
   ConsoleError (''Failed to execute puffin: '' @ m)
   \<in> set (entryEvents resolve spawnSync crxFile downloadDir outputDir file)"
  by (simp add: entryEvents_def Let_def)

text \<open>
  Claim C7. Whatever the tool reports for each previous artifact, the batch does not
  throw: the tool is started for every \<^verbatim>\<open>.crx\<close> entry of the directory, in order, each
  error it reports is logged, and the batch ends with its closing line.
\<close>

theorem generatePuffPatches_tolerates_failures:
  assumes "crxFile \<noteq> []"
    and "downloadDir = ''build/previous/'' @ ident"
    and "outputDir = ''build/patches/'' @ ident @ ''/'' @ hash"
    and "readdirSync downloadDir = Inr files"
  shows "generatePuffPatches resolve spawnSync readdirSync (Inr (ident, hash)) crxFile =
           (Inr (),
            concat (map (entryEvents resolve spawnSync crxFile downloadDir outputDir) files)
            @ [ConsoleLog ''All patches generated.''])
         \<and> (\<forall>file \<in> set files.
               parseExt (pathJoin downloadDir file) = ''.crx'' \<longrightarrow>
               SpawnSync ''puffin''
                 (puffArgs resolve (pathJoin downloadDir file) crxFile
                    (outputDir @ ''/'' @ parseName (pathJoin downloadDir file) @ ''.puff''))
               \<in> set (snd (generatePuffPatches resolve spawnSync readdirSync
                               (Inr (ident, hash)) crxFile)))
         \<and> (\<forall>file \<in> set files. \<forall>m.
               parseExt (pathJoin downloadDir file) = ''.crx''
               \<and> spawnSync (puffArgs resolve (pathJoin downloadDir file) crxFile
                    (outputDir @ ''/'' @ parseName (pathJoin downloadDir file) @ ''.puff''))
                   = Some m \<longrightarrow>
               ConsoleError (''Failed to execute puffin: '' @ m)
               \<in> set (snd (generatePuffPatches resolve spawnSync readdirSync
                               (Inr (ident, hash)) crxFile)))"
proof -
  let ?g = "generatePuffPatches resolve spawnSync readdirSync (Inr (ident, hash)) crxFile"
  let ?ev = "entryEvents resolve spawnSync crxFile downloadDir outputDir"
  have run: "?g = (Inr (), concat (map ?ev files) @ [ConsoleLog ''All patches generated.''])"
    using assms(1) assms(4) unfolding assms(2) assms(3)
    by (simp add: generatePuffPatches_def forEachPrevious_all)
  have sub: "set (?ev entry) \<subseteq> set (snd ?g)" if "entry \<in> set files" for entry
    using that by (auto simp: run)
  have "SpawnSync ''puffin''
          (puffArgs resolve (pathJoin downloadDir entry) crxFile
             (outputDir @ ''/'' @ parseName (pathJoin downloadDir entry) @ ''.puff''))
        \<in> set (snd ?g)"
    if "entry \<in> set files" and "parseExt (pathJoin downloadDir entry) = ''.crx''" for entry
    using sub [OF that(1)] that(2)
      entryEvents_spawn [of downloadDir entry resolve crxFile outputDir spawnSync]
    by blast
  moreover have "ConsoleError (''Failed to execute puffin: '' @ m) \<in> set (snd ?g)"
    if "entry \<in> set files" and "parseExt (pathJoin downloadDir entry) = ''.crx''"
      and "spawnSync (puffArgs resolve (pathJoin downloadDir entry) crxFile
             (outputDir @ ''/'' @ parseName (pathJoin downloadDir entry) @ ''.puff'')) = Some m"
    for entry m
    using sub [OF that(1)] that(2) that(3)
      entryEvents_logged [of downloadDir entry spawnSync resolve crxFile outputDir m]
    by blast
  ultimately show ?thesis using run by blast
qed

text \<open>
  The witness: two previous artifacts and a stray file; the tool cannot be run on the
  first artifact, and the second is still processed.
\<close>

theorem generatePuffPatches_tolerates_failures_witness:
  "generatePuffPatches (\<lambda>p. ''/w/'' @ p)
     (\<lambda>args. if args ! 1 = ''/w/build/previous/id/h1.crx'' then Some ''spawnSync puffin ENOENT''
              else None)
     (\<lambda>d. Inr [''h1.crx'', ''notes.txt'', ''h2.crx'']) (Inr (''id'', ''hh'')) ''out/new.crx''
   = (Inr (),
      [ConsoleLog ''Generating patch: build/patches/id/hh/h1.puff'',
       SpawnSync ''puffin''
         [''-puffdiff'', ''/w/build/previous/id/h1.crx'', ''/w/out/new.crx'',
          ''/w/build/patches/id/hh/h1.puff''],
       ConsoleError ''Failed to execute puffin: spawnSync puffin ENOENT'',
       ConsoleLog ''Generating patch: build/patches/id/hh/h2.puff'',
       SpawnSync ''puffin''
         [''-puffdiff'', ''/w/build/previous/id/h2.crx'', ''/w/out/new.crx'',
          ''/w/build/patches/id/hh/h2.puff''],
       ConsoleLog ''All patches generated.''])"
proof -
  let ?spawn = "\<lambda>args. if args ! 1 = ''/w/build/previous/id/h1.crx''
                        then Some ''spawnSync puffin ENOENT'' else None"
  have e: "concat (map (entryEvents (\<lambda>p. ''/w/'' @ p) ?spawn ''out/new.crx''
                          ''build/previous/id'' ''build/patches/id/hh'')
                     [''h1.crx'', ''notes.txt'', ''h2.crx''])
      = [ConsoleLog ''Generating patch: build/patches/id/hh/h1.puff'',
         SpawnSync ''puffin''
           [''-puffdiff'', ''/w/build/previous/id/h1.crx'', ''/w/out/new.crx'',
            ''/w/build/patches/id/hh/h1.puff''],
         ConsoleError ''Failed to execute puffin: spawnSync puffin ENOENT'',
         ConsoleLog ''Generating patch: build/patches/id/hh/h2.puff'',
         SpawnSync ''puffin''
           [''-puffdiff'', ''/w/build/previous/id/h2.crx'', ''/w/out/new.crx'',
            ''/w/build/patches/id/hh/h2.puff'']]"
    by code_simp
  have "generatePuffPatches (\<lambda>p. ''/w/'' @ p) ?spawn
          (\<lambda>d. Inr [''h1.crx'', ''notes.txt'', ''h2.crx'']) (Inr (''id'', ''hh'')) ''out/new.crx''
        = (Inr (),
           concat (map (entryEvents (\<lambda>p. ''/w/'' @ p) ?spawn ''out/new.crx''
                          ''build/previous/id'' ''build/patches/id/hh'')
                     [''h1.crx'', ''notes.txt'', ''h2.crx''])
           @ [ConsoleLog ''All patches generated.''])"
    using generatePuffPatches_tolerates_failures
      [of "''out/new.crx''" "''build/previous/id''" "''id''" "''build/patches/id/hh''" "''hh''"
          "\<lambda>d. Inr [''h1.crx'', ''notes.txt'', ''h2.crx'']" "[''h1.crx'', ''notes.txt'', ''h2.crx'']"
          "\<lambda>p. ''/w/'' @ p" ?spawn]
    by simp
  then show ?thesis by (simp only: e) simp
qed

section \<open>Properties of publishing\<close>

lemma uploadPatches_sent:
  "puffEntries env ident hash = Inr entries \<Longrightarrow>
   snd (uploadPatches env ident hash)
     = concat (map (\<lambda>entry. snd (uploadJob env ident hash entry)) entries)"
  by (simp add: uploadPatches_def Let_def comp_def split: sum.splits)

text \<open>
  Claim C5 does not hold of the code. The client imported by the source reports a missing
  object by an error whose \<^verbatim>\<open>name\<close> is \<^verbatim>\<open>NotFound\<close> and which has no
  \<^verbatim>\<open>code\<close>; the download path of the same file tests the name, the head request's
  handler tests the code. So when the artifact and the patches have been uploaded, the new
  object has been tagged and the previous version's object is missing, \<open>uploadExtension\<close>
  does not end normally: it throws the error for an unexpected answer to the head request.
\<close>

theorem uploadExtension_missing_previous_throws:
  assumes "uploadToS3 env crxFile (s3Bucket env) (releaseKey ident version)
             ''application/x-chrome-extension'' = (Inr (), sent)"
    and "uploadPatches env ident hash = (Inr (), sent')"
    and "s3Send env (newTagging env title ident version) = None"
    and "s3Send env (previousHead inexact env ident version) = Some (Exception ''NotFound'' None m)"
  shows "uploadExtension inexact env title ident version hash crxFile
           = (Inl (Exception ''Error'' None ''Unexpected error with HeadObject command''),
              sent @ sent' @ [newTagging env title ident version,
                              previousHead inexact env ident version])
         \<and> fst (uploadExtension inexact env title ident version hash crxFile) \<noteq> Inr ()"
proof -
  have "updateTags inexact env title ident version
      = (Inl (Exception ''Error'' None ''Unexpected error with HeadObject command''),
         [newTagging env title ident version, previousHead inexact env ident version])"
    using assms(3,4) by (simp add: updateTags_def errCode_def)
  with assms(1,2) show ?thesis by (simp add: uploadExtension_def)
qed

theorem uploadExtension_missing_previous_throws_witness:
  "uploadExtension (\<lambda>seg k. ''NaN'') missingPreviousSurroundings ''My Ext'' ''id'' ''1.0.3'' ''hh''
     ''out/new.crx''
   = (Inl (Exception ''Error'' None ''Unexpected error with HeadObject command''),
      [PutObject ''brave-core-ext'' ''release/id/extension_1_0_3.crx'' ''bytes of out/new.crx''
         ''application/x-chrome-extension'',
       PutObjectTagging ''brave-core-ext'' ''release/id/extension_1_0_3.crx''
         [(''My-Ext'', ''1.0.3''), (''version'', ''My-Ext/latest'')],
       HeadObject ''brave-core-ext'' ''release/id/extension_1_0_2.crx''])"
proof -
  let ?env = missingPreviousSurroundings
  have a: "uploadToS3 ?env ''out/new.crx'' (s3Bucket ?env)
             (releaseKey ''id'' ''1.0.3'') ''application/x-chrome-extension''
           = (Inr (), [PutObject ''brave-core-ext'' ''release/id/extension_1_0_3.crx''
                         ''bytes of out/new.crx'' ''application/x-chrome-extension''])"
    by code_simp
  have b: "uploadPatches ?env ''id'' ''hh'' = (Inr (), [])"
    by code_simp
  have c: "s3Send ?env (newTagging ?env ''My Ext'' ''id'' ''1.0.3'') = None"
    by code_simp
  have d: "s3Send ?env (previousHead (\<lambda>seg k. ''NaN'') ?env ''id'' ''1.0.3'')
           = Some (Exception ''NotFound'' None ''UnknownError'')"
    by code_simp
  have f: "newTagging ?env ''My Ext'' ''id'' ''1.0.3''
           = PutObjectTagging ''brave-core-ext'' ''release/id/extension_1_0_3.crx''
               [(''My-Ext'', ''1.0.3''), (''version'', ''My-Ext/latest'')]"
    by code_simp
  have g: "previousHead (\<lambda>seg k. ''NaN'') ?env ''id'' ''1.0.3''
           = HeadObject ''brave-core-ext'' ''release/id/extension_1_0_2.crx''"
    by code_simp
  from uploadExtension_missing_previous_throws [OF a b c d] show ?thesis
    by (simp only: f g) simp
qed

text \<open>
  The branch that ends the function normally is taken only on an error that carries the
  code.
\<close>

lemma updateTags_code_not_found:
  "s3Send env (newTagging env title ident version) = None \<Longrightarrow>
   s3Send env (previousHead inexact env ident version) = Some err \<Longrightarrow>
   errCode err = Some ''NotFound'' \<Longrightarrow>
   updateTags inexact env title ident version
     = (Inr (), [newTagging env title ident version, previousHead inexact env ident version])"
  by (simp add: updateTags_def)

lemma firstSettled_min:
  "\<exists>t. (t, firstSettled r rs) \<in> set (r # rs) \<and> (\<forall>x \<in> set (r # rs). t \<le> fst x)"
proof (induction rs arbitrary: r)
  case Nil
  show ?case by (cases r) auto
next
  case (Cons x xs)
  obtain t where t: "(t, firstSettled (if fst x < fst r then x else r) xs)
        \<in> set ((if fst x < fst r then x else r) # xs)"
      and least: "\<forall>y \<in> set ((if fst x < fst r then x else r) # xs). t \<le> fst y"
    using Cons.IH [of "if fst x < fst r then x else r"] by blast
  from least have "t \<le> fst x" "t \<le> fst r" "\<forall>y \<in> set xs. t \<le> fst y"
    by (auto split: if_splits)
  moreover from t have "(t, firstSettled r (x # xs)) \<in> set (r # x # xs)"
    by (auto split: if_splits)
  ultimately show ?case by auto
qed

lemma rejections_iff: "(t, e) \<in> set (rejections ps) \<longleftrightarrow> (t, Inl e) \<in> set ps"
  by (induction ps rule: rejections.induct) auto

lemma PromiseAll_rejected:
  assumes "(t, Inl e) \<in> set ps"
  shows "\<exists>t' e'. PromiseAll ps = Inl e' \<and> (t', Inl e') \<in> set ps
           \<and> (\<forall>t'' e''. (t'', Inl e'') \<in> set ps \<longrightarrow> t' \<le> t'')"
proof -
  from assms have "(t, e) \<in> set (rejections ps)" by (simp add: rejections_iff)
  then obtain r rs where rs: "rejections ps = r # rs" by (cases "rejections ps") auto
  obtain t' where t': "(t', firstSettled r rs) \<in> set (r # rs)"
      and least: "\<forall>x \<in> set (r # rs). t' \<le> fst x"
    using firstSettled_min [of r rs] by blast
  have "PromiseAll ps = Inl (firstSettled r rs)" by (simp add: PromiseAll_def rs)
  moreover from t' have "(t', Inl (firstSettled r rs)) \<in> set ps"
    by (simp only: rs [symmetric] rejections_iff)
  moreover have "t' \<le> t''" if "(t'', Inl e'') \<in> set ps" for t'' e''
  proof -
    from that have "(t'', e'') \<in> set (r # rs)" by (simp only: rs [symmetric] rejections_iff)
    with least show ?thesis by fastforce
  qed
  ultimately show ?thesis by blast
qed

lemma uploadJob_put:
  "fsReadFile env (pathJoin (patchDir ident hash) entry) = Inr body \<Longrightarrow>
   snd (uploadJob env ident hash entry)
     = [PutObject (s3Bucket env) (patchKey ident hash entry) body ''application/octet-stream'']"
  by (simp add: uploadJob_def uploadToS3_def split: option.splits)

text \<open>
  Claim C6, as amended. Every patch upload of the batch is started, whatever becomes of
  the others: the commands sent are those of all the jobs, in the order of the entries,
  and a patch file that can be read is put to the store. When one or more uploads fail,
  the batch is rejected with the error of one failed upload, the one that settles first,
  and \<open>uploadExtension\<close> ends with that one error, before any tag is written.
\<close>

theorem uploadPatches_first_rejection:
  assumes "puffEntries env ident hash = Inr entries"
  shows "snd (uploadPatches env ident hash)
           = concat (map (\<lambda>entry. snd (uploadJob env ident hash entry)) entries)
         \<and> (\<forall>entry \<in> set entries. \<forall>body.
               fsReadFile env (pathJoin (patchDir ident hash) entry) = Inr body \<longrightarrow>
               PutObject (s3Bucket env) (patchKey ident hash entry) body ''application/octet-stream''
               \<in> set (snd (uploadPatches env ident hash)))
         \<and> ((\<exists>entry \<in> set entries. isl (fst (uploadJob env ident hash entry))) \<longrightarrow>
             (\<exists>entry \<in> set entries. \<exists>e.
                fst (uploadJob env ident hash entry) = Inl e
                \<and> (\<forall>other \<in> set entries.
                      isl (fst (uploadJob env ident hash other)) \<longrightarrow>
                      settleTime env (pathJoin (patchDir ident hash) entry)
                        \<le> settleTime env (pathJoin (patchDir ident hash) other))
                \<and> fst (uploadPatches env ident hash) = Inl e
                \<and> (\<forall>sent.
                      uploadToS3 env crxFile (s3Bucket env) (releaseKey ident version)
                        ''application/x-chrome-extension'' = (Inr (), sent) \<longrightarrow>
                      uploadExtension inexact env title ident version hash crxFile
                        = (Inl e, sent @ snd (uploadPatches env ident hash)))))"
proof -
  let ?time = "\<lambda>entry. settleTime env (pathJoin (patchDir ident hash) entry)"
  let ?ps = "map (\<lambda>entry. (?time entry, fst (uploadJob env ident hash entry))) entries"
  have sent: "snd (uploadPatches env ident hash)
      = concat (map (\<lambda>entry. snd (uploadJob env ident hash entry)) entries)"
    using assms by (rule uploadPatches_sent)
  have put: "PutObject (s3Bucket env) (patchKey ident hash entry) body ''application/octet-stream''
      \<in> set (snd (uploadPatches env ident hash))"
    if "entry \<in> set entries" and "fsReadFile env (pathJoin (patchDir ident hash) entry) = Inr body"
    for entry body
  proof -
    have "PutObject (s3Bucket env) (patchKey ident hash entry) body ''application/octet-stream''
        \<in> set (snd (uploadJob env ident hash entry))"
      by (simp add: uploadJob_put [OF that(2)])
    with that(1) show ?thesis unfolding sent by auto
  qed
  have res: "fst (uploadPatches env ident hash)
      = (case PromiseAll ?ps of Inl e \<Rightarrow> Inl e | Inr done \<Rightarrow> Inr ())"
    using assms by (simp add: uploadPatches_def Let_def split: sum.splits)
  have rejected: "\<exists>entry \<in> set entries. \<exists>e.
        fst (uploadJob env ident hash entry) = Inl e
        \<and> (\<forall>other \<in> set entries.
              isl (fst (uploadJob env ident hash other)) \<longrightarrow> ?time entry \<le> ?time other)
        \<and> fst (uploadPatches env ident hash) = Inl e
        \<and> (\<forall>sent.
              uploadToS3 env crxFile (s3Bucket env) (releaseKey ident version)
                ''application/x-chrome-extension'' = (Inr (), sent) \<longrightarrow>
              uploadExtension inexact env title ident version hash crxFile
                = (Inl e, sent @ snd (uploadPatches env ident hash)))"
    if "\<exists>entry \<in> set entries. isl (fst (uploadJob env ident hash entry))"
  proof -
    from that obtain bad e0 where bad: "bad \<in> set entries"
        and e0: "fst (uploadJob env ident hash bad) = Inl e0"
      by (auto simp: isl_def)
    then have "(?time bad, Inl e0) \<in> set ?ps" by force
    then obtain t' e' where all: "PromiseAll ?ps = Inl e'" and mem: "(t', Inl e') \<in> set ?ps"
        and least: "\<forall>t'' e''. (t'', Inl e'') \<in> set ?ps \<longrightarrow> t' \<le> t''"
      using PromiseAll_rejected [of "?time bad" e0 ?ps] by blast
    from mem obtain entry where entry: "entry \<in> set entries" and t': "t' = ?time entry"
        and e': "fst (uploadJob env ident hash entry) = Inl e'"
      by auto
    have first: "?time entry \<le> ?time other"
      if "other \<in> set entries" and "isl (fst (uploadJob env ident hash other))" for other
    proof -
      from that(2) obtain e'' where "fst (uploadJob env ident hash other) = Inl e''"
        by (auto simp: isl_def)
      with that(1) have "(?time other, Inl e'') \<in> set ?ps" by force
      with least t' show ?thesis by blast
    qed
    have failed: "fst (uploadPatches env ident hash) = Inl e'" by (simp add: res all)
    have "uploadExtension inexact env title ident version hash crxFile
        = (Inl e', sent @ snd (uploadPatches env ident hash))"
      if "uploadToS3 env crxFile (s3Bucket env) (releaseKey ident version)
            ''application/x-chrome-extension'' = (Inr (), sent)" for sent
      using that failed
      by (cases "uploadPatches env ident hash") (simp add: uploadExtension_def)
    with entry e' first failed show ?thesis by blast
  qed
  from sent put rejected show ?thesis by blast
qed

lemma failing_entries:
  "puffEntries failingSurroundings ''id'' ''hh'' = Inr [''a.puff'', ''b.puff'', ''c.puff'']"
  by code_simp

lemma failing_jobs:
  "uploadJob failingSurroundings ''id'' ''hh'' ''a.puff''
     = (Inl uploadFailed,
        [PutObject ''brave-core-ext'' ''release/id/patches/hh/a.puff''
           ''bytes of build/patches/id/hh/a.puff'' ''application/octet-stream''])"
  "uploadJob failingSurroundings ''id'' ''hh'' ''b.puff''
     = (Inl (Exception ''Error'' (Some ''EACCES'') ''permission denied''), [])"
  "uploadJob failingSurroundings ''id'' ''hh'' ''c.puff''
     = (Inr (),
        [PutObject ''brave-core-ext'' ''release/id/patches/hh/c.puff''
           ''bytes of build/patches/id/hh/c.puff'' ''application/octet-stream''])"
  by code_simp+

lemma failing_times:
  "settleTime failingSurroundings (pathJoin (patchDir ''id'' ''hh'') ''a.puff'') = 2"
  "settleTime failingSurroundings (pathJoin (patchDir ''id'' ''hh'') ''b.puff'') = 1"
  by code_simp+

lemma failing_artifact:
  "uploadToS3 failingSurroundings ''out/new.crx'' (s3Bucket failingSurroundings)
     (releaseKey ''id'' ''1.0.3'') ''application/x-chrome-extension''
   = (Inr (), [PutObject ''brave-core-ext'' ''release/id/extension_1_0_3.crx''
                 ''bytes of out/new.crx'' ''application/x-chrome-extension''])"
  by code_simp

theorem uploadPatches_first_rejection_witness:
  "uploadExtension (\<lambda>seg k. ''NaN'') failingSurroundings ''My Ext'' ''id'' ''1.0.3'' ''hh''
     ''out/new.crx''
   = (Inl (Exception ''Error'' (Some ''EACCES'') ''permission denied''),
      [PutObject ''brave-core-ext'' ''release/id/extension_1_0_3.crx'' ''bytes of out/new.crx''
         ''application/x-chrome-extension'',
       PutObject ''brave-core-ext'' ''release/id/patches/hh/a.puff''
         ''bytes of build/patches/id/hh/a.puff'' ''application/octet-stream'',
       PutObject ''brave-core-ext'' ''release/id/patches/hh/c.puff''
         ''bytes of build/patches/id/hh/c.puff'' ''application/octet-stream''])"
proof -
  let ?env = failingSurroundings
  let ?job = "uploadJob ?env ''id'' ''hh''"
  let ?time = "\<lambda>entry. settleTime ?env (pathJoin (patchDir ''id'' ''hh'') entry)"
  note th = uploadPatches_first_rejection [OF failing_entries,
      of "''out/new.crx''" "''1.0.3''" "\<lambda>seg k. ''NaN''" "''My Ext''"]
  from th have sent: "snd (uploadPatches ?env ''id'' ''hh'')
      = [PutObject ''brave-core-ext'' ''release/id/patches/hh/a.puff''
           ''bytes of build/patches/id/hh/a.puff'' ''application/octet-stream'',
         PutObject ''brave-core-ext'' ''release/id/patches/hh/c.puff''
           ''bytes of build/patches/id/hh/c.puff'' ''application/octet-stream'']"
    by (simp add: failing_jobs)
  have "\<exists>entry \<in> set [''a.puff'', ''b.puff'', ''c.puff'']. isl (fst (?job entry))"
    by (simp add: failing_jobs)
  with th obtain entry e where entry: "entry \<in> set [''a.puff'', ''b.puff'', ''c.puff'']"
      and e: "fst (?job entry) = Inl e"
      and first: "\<forall>other \<in> set [''a.puff'', ''b.puff'', ''c.puff''].
            isl (fst (?job other)) \<longrightarrow> ?time entry \<le> ?time other"
      and run: "\<forall>sent. uploadToS3 ?env ''out/new.crx'' (s3Bucket ?env) (releaseKey ''id'' ''1.0.3'')
              ''application/x-chrome-extension'' = (Inr (), sent) \<longrightarrow>
            uploadExtension (\<lambda>seg k. ''NaN'') ?env ''My Ext'' ''id'' ''1.0.3'' ''hh'' ''out/new.crx''
              = (Inl e, sent @ snd (uploadPatches ?env ''id'' ''hh''))"
    by blast
  from first have "?time entry \<le> ?time ''b.puff''" by (simp add: failing_jobs)
  then have "?time entry \<le> 1" by (simp only: failing_times)
  with entry e have "entry = ''b.puff''"
    by (auto simp: failing_jobs failing_times)
  with e have "e = Exception ''Error'' (Some ''EACCES'') ''permission denied''"
    by (simp add: failing_jobs)
  with run failing_artifact sent show ?thesis by simp
qed

text \<open>
  Claim C6 as stated fails on that batch: two uploads fail, with different errors, and
  \<open>uploadExtension\<close> ends with one of them alone.
\<close>

theorem uploadExtension_failures_not_collected:
  "puffEntries failingSurroundings ''id'' ''hh'' = Inr [''a.puff'', ''b.puff'', ''c.puff'']
   \<and> map (\<lambda>entry. fst (uploadJob failingSurroundings ''id'' ''hh'' entry))
        [''a.puff'', ''b.puff'', ''c.puff'']
      = [Inl uploadFailed, Inl (Exception ''Error'' (Some ''EACCES'') ''permission denied''), Inr ()]
   \<and> uploadFailed \<noteq> Exception ''Error'' (Some ''EACCES'') ''permission denied''
   \<and> fst (uploadExtension (\<lambda>seg k. ''NaN'') failingSurroundings ''My Ext'' ''id'' ''1.0.3'' ''hh''
            ''out/new.crx'')
      = Inl (Exception ''Error'' (Some ''EACCES'') ''permission denied'')"
proof -
  have "fst (uploadExtension (\<lambda>seg k. ''NaN'') failingSurroundings ''My Ext'' ''id'' ''1.0.3'' ''hh''
            ''out/new.crx'')
      = Inl (Exception ''Error'' (Some ''EACCES'') ''permission denied'')"
    by code_simp
  then show ?thesis
    by (simp add: failing_entries failing_jobs uploadFailed_def)
qed

end
